theory Spec2Isabelle
  imports Main "HOL-Library.Word" "HOL-Library.Signed_Division"
begin

section \<open>The SCPI control-plane server of wfmserver (ScpiServerThread.cpp)\<close>

text \<open>
  The theory embeds the command loop of \<^verbatim>\<open>ScpiServerThread\<close>, the tokenizer
  \<^verbatim>\<open>ParseScpiLine\<close> and the trigger functions \<^verbatim>\<open>Start\<close> and \<^verbatim>\<open>Stop\<close>.
  The process-wide variables are one record that every handler takes and returns.
  \<^verbatim>\<open>size_t\<close> and \<^verbatim>\<open>int64_t\<close> are 64-bit words (the signed reading is \<open>sint\<close>),
  \<^verbatim>\<open>int\<close> is a 32-bit word. An uncaught C++ exception or an integer division
  trap ends the process; the model returns the variables as they stood at that point.
\<close>

type_synonym size_t = "64 word"
type_synonym int64_t = "64 word"
type_synonym int32_t = "32 word"

datatype error = invalid_argument | out_of_range | division_by_zero | division_overflow

subsection \<open>Characters and the number conversions of the C++ library\<close>

definition isspace :: "char \<Rightarrow> bool" where
  "isspace c = (c = CHR '' '' \<or> c = CHR 0x09 \<or> c = CHR 0x0A \<or> c = CHR 0x0B
                \<or> c = CHR 0x0C \<or> c = CHR 0x0D)"

definition isdigit :: "char \<Rightarrow> bool" where
  "isdigit c = (48 \<le> (of_char c :: nat) \<and> (of_char c :: nat) \<le> 57)"

definition toupper :: "char \<Rightarrow> char" where
  "toupper c = (if 97 \<le> (of_char c :: nat) \<and> (of_char c :: nat) \<le> 122
                then char_of ((of_char c :: nat) - 32) else c)"

definition digit_value :: "char \<Rightarrow> int" where
  "digit_value c = (of_char c :: int) - 48"

text \<open>
  The common front of \<^verbatim>\<open>strtol\<close> and \<^verbatim>\<open>strtoull\<close> in base 10: leading white space
  is skipped, one sign is accepted, then the longest run of decimal digits is read and
  whatever follows is ignored. \<open>None\<close> when there is no digit.
\<close>

definition scan_integer :: "string \<Rightarrow> (bool \<times> int) option" where
  "scan_integer s =
     (let s1 = dropWhile isspace s;
          neg = (case s1 of [] \<Rightarrow> False | c # r \<Rightarrow> c = CHR ''-'');
          s2 = (case s1 of [] \<Rightarrow> [] | c # r \<Rightarrow> if c = CHR ''-'' \<or> c = CHR ''+'' then r else s1);
          ds = takeWhile isdigit s2
      in if ds = [] then None
         else Some (neg, foldl (\<lambda>a c. 10 * a + digit_value c) 0 ds))"

text \<open>\<^verbatim>\<open>std::stoi\<close>: throws when there is no number or when it does not fit an \<^verbatim>\<open>int\<close>.\<close>

definition stoi :: "string \<Rightarrow> error + int32_t" where
  "stoi s =
     (case scan_integer s of
        None \<Rightarrow> Inl invalid_argument
      | Some (neg, v) \<Rightarrow>
          (let i = (if neg then - v else v)
           in if i < - (2 ^ 31) \<or> 2 ^ 31 - 1 < i then Inl out_of_range
              else Inr (word_of_int i)))"

text \<open>
  \<^verbatim>\<open>std::stoull\<close>: throws when there is no number or when the digits exceed 64 bits;
  a minus sign negates the value modulo \<open>2 ^ 64\<close>, as \<^verbatim>\<open>strtoull\<close> does.
\<close>

definition stoull :: "string \<Rightarrow> error + size_t" where
  "stoull s =
     (case scan_integer s of
        None \<Rightarrow> Inl invalid_argument
      | Some (neg, v) \<Rightarrow>
          if 2 ^ 64 - 1 < v then Inl out_of_range
          else Inr (if neg then - word_of_int v else word_of_int v))"

subsection \<open>ParseScpiLine\<close>

text \<open>The four outputs of the tokenizer and its two local variables.\<close>

record parse_vars =
  subject :: string
  cmd :: string
  query :: bool
  args :: "string list"
  tmp :: string
  reading_cmd :: bool

text \<open>One iteration of the loop over the characters of the line.\<close>

definition parse_char :: "char \<Rightarrow> parse_vars \<Rightarrow> parse_vars" where
  "parse_char ch v =
     (if ch = CHR '':'' \<and> subject v = [] then v\<lparr>subject := tmp v, tmp := []\<rparr>
      else if ch = CHR ''?'' then v\<lparr>query := True\<rparr>
      else if \<not> (isspace ch \<and> cmd v = []) \<and> ch \<noteq> CHR '','' then v\<lparr>tmp := tmp v @ [ch]\<rparr>
      else if tmp v = [] then v
      else if reading_cmd v then v\<lparr>cmd := tmp v, reading_cmd := False, tmp := []\<rparr>
      else v\<lparr>args := args v @ [tmp v], reading_cmd := False, tmp := []\<rparr>)"

primrec parse_loop :: "string \<Rightarrow> parse_vars \<Rightarrow> parse_vars" where
  "parse_loop [] v = v"
| "parse_loop (ch # rest) v = parse_loop rest (parse_char ch v)"

definition parse_reset :: parse_vars where
  "parse_reset = \<lparr>subject = [], cmd = [], query = False, args = [], tmp = [], reading_cmd = True\<rparr>"

text \<open>What is left in \<open>tmp\<close> after the loop goes to the command or to the arguments.\<close>

definition parse_leftover :: "parse_vars \<Rightarrow> parse_vars" where
  "parse_leftover v =
     (if tmp v \<noteq> [] then
        (if cmd v \<noteq> [] then v\<lparr>args := args v @ [tmp v]\<rparr> else v\<lparr>cmd := tmp v\<rparr>)
      else v)"

text \<open>The result is the tuple (subject, cmd, query, args).\<close>

definition ParseScpiLine :: "string \<Rightarrow> string \<times> string \<times> bool \<times> string list" where
  "ParseScpiLine line =
     (let v = parse_leftover (parse_loop line parse_reset)
      in (subject v, cmd v, query v, args v))"

text \<open>A character that the loop appends to \<open>tmp\<close> whatever the state of the command.\<close>

definition token_char :: "char \<Rightarrow> bool" where
  "token_char c = (\<not> isspace c \<and> c \<noteq> CHR '','' \<and> c \<noteq> CHR ''?'')"

subsection \<open>The channel index of a subject\<close>

text \<open>
  \<^verbatim>\<open>subject[0]\<close> of an empty \<^verbatim>\<open>std::string\<close> is the terminating NUL.
  \<^verbatim>\<open>subject.c_str() + 1\<close> is the subject without its first character, up to the
  first NUL.
\<close>

definition first_char :: "string \<Rightarrow> char" where
  "first_char s = (case s of [] \<Rightarrow> CHR 0x00 | c # r \<Rightarrow> c)"

definition c_str :: "string \<Rightarrow> string" where
  "c_str s = takeWhile (\<lambda>c. c \<noteq> CHR 0x00) s"

text \<open>
  \<^verbatim>\<open>min(static_cast<size_t>(stoi(subject.c_str() + 1) - 1), g_numAnalogInChannels)\<close>:
  the subtraction is on \<^verbatim>\<open>int\<close>, the cast extends the sign to 64 bits, the minimum is
  unsigned. The channel count \<open>n\<close> is declared in wfmserver.h and is a parameter here.
\<close>

definition channelId_of :: "size_t \<Rightarrow> string \<Rightarrow> error + size_t" where
  "channelId_of n subj =
     (if toupper (first_char subj) = CHR ''C'' then
        (case stoi (tl (c_str subj)) of
           Inl e \<Rightarrow> Inl e
         | Inr i \<Rightarrow> Inr (min (scast (i - 1) :: size_t) n))
      else Inr 0)"

subsection \<open>The device, the log and the replies\<close>

text \<open>
  A \<^verbatim>\<open>double\<close> is a value of the type parameter \<open>'d\<close>: the model does no floating-point
  arithmetic of its own, the operations it needs are fields of the environment.
  Every call of the Digilent SDK is recorded with its arguments, in call order.
\<close>

datatype DwfTriggerSlope = DwfTriggerSlopeRise | DwfTriggerSlopeFall | DwfTriggerSlopeEither

datatype 'd dwf_call =
    FDwfAnalogInChannelEnableSet size_t bool
  | FDwfAnalogInChannelOffsetSet size_t 'd
  | FDwfAnalogInChannelAttenuationSet size_t 'd
  | FDwfAnalogInChannelRangeSet size_t 'd
  | FDwfAnalogInFrequencySet int64_t
  | FDwfAnalogInFrequencyInfo
  | FDwfAnalogInBufferSizeSet size_t
  | FDwfAnalogInTriggerTypeSet_trigtypeEdge
  | FDwfAnalogInTriggerConditionSet DwfTriggerSlope
  | FDwfAnalogInTriggerLevelSet 'd
  | FDwfAnalogInTriggerSourceSet_trigsrcDetectorAnalogIn
  | FDwfAnalogInTriggerAutoTimeoutSet_0
  | FDwfAnalogInTriggerChannelSet size_t
  | FDwfAnalogInTriggerPositionSet 'd
  | FDwfAnalogInTriggerPositionGet
  | FDwfAnalogInAcquisitionModeSet_acqmodeSingle
  | FDwfAnalogInConfigure bool bool

datatype log_level = LogError | LogWarning | LogVerbose | LogDebug | LogTrace

text \<open>A log entry is the level, the format string (without its final newline) and the
  strings that fill its \<^verbatim>\<open>%s\<close>.\<close>

type_synonym log_entry = "log_level \<times> string \<times> string list"

text \<open>
  The replies are kept as descriptors: the identification string is built from variables
  of another file and the list of rates from floating-point arithmetic on local variables.
\<close>

datatype scpi_reply = reply_IDN | reply_CHANS size_t | reply_RATES | reply_DEPTHS string

text \<open>
  What the command loop uses and this file does not define:
  the channel count of wfmserver.h; \<^verbatim>\<open>std::stod\<close>; the expressions
  \<^verbatim>\<open>FS_PER_SECOND / rate\<close> and \<^verbatim>\<open>position_fs * SECONDS_PER_FS\<close>, whose macros come from
  another header; the subtraction and the zero of \<^verbatim>\<open>double\<close>; and the device:
  whether a call succeeds, given the calls made before it, and the value that
  \<^verbatim>\<open>FDwfAnalogInTriggerPositionGet\<close> leaves in \<^verbatim>\<open>position_sec_actual\<close>.
\<close>

record 'd env =
  g_numAnalogInChannels :: size_t
  stod :: "string \<Rightarrow> error + 'd"
  FS_PER_SECOND_div :: "int64_t \<Rightarrow> error + int64_t"
  mul_SECONDS_PER_FS :: "int64_t \<Rightarrow> 'd"
  double_minus :: "'d \<Rightarrow> 'd \<Rightarrow> 'd"
  double_zero :: 'd
  dwf_succeeds :: "'d dwf_call list \<Rightarrow> 'd dwf_call \<Rightarrow> bool"
  dwf_position :: "'d dwf_call list \<Rightarrow> 'd"

subsection \<open>The process-wide variables\<close>

type_synonym channel_map = "size_t \<rightharpoonup> bool"

record 'd globals =
  g_channelOn :: channel_map
  g_memDepth :: size_t
  g_sampleInterval :: int64_t
  g_channelOnDuringArm :: channel_map
  g_sampleIntervalDuringArm :: int64_t
  g_captureMemDepth :: size_t
  g_triggerArmed :: bool
  g_triggerOneShot :: bool
  g_memDepthChanged :: bool
  g_triggerVoltage :: 'd
  g_triggerChannel :: size_t
  g_triggerSampleIndex :: size_t
  g_triggerDelay :: int64_t
  g_triggerDeltaSec :: 'd
  dwf_calls :: "'d dwf_call list"
  logged :: "log_entry list"
  sent :: "scpi_reply list"

text \<open>The initializers of the file; a variable without one starts at zero.\<close>

definition initial_globals :: "'d env \<Rightarrow> 'd globals" where
  "initial_globals e =
     \<lparr> g_channelOn = Map.empty, g_memDepth = 1000000, g_sampleInterval = 0,
       g_channelOnDuringArm = Map.empty, g_sampleIntervalDuringArm = 0, g_captureMemDepth = 0,
       g_triggerArmed = False, g_triggerOneShot = False, g_memDepthChanged = False,
       g_triggerVoltage = double_zero e, g_triggerChannel = 0, g_triggerSampleIndex = 0,
       g_triggerDelay = 0, g_triggerDeltaSec = double_zero e,
       dwf_calls = [], logged = [], sent = [] \<rparr>"

text \<open>How a handler, or \<^verbatim>\<open>Start\<close>, ends: the loop goes on, the loop is left, or the
  process is terminated.\<close>

datatype 'd result = Done "'d globals" | Exit "'d globals" | Terminated error "'d globals"

fun globals_of :: "'d result \<Rightarrow> 'd globals" where
  "globals_of (Done s) = s"
| "globals_of (Exit s) = s"
| "globals_of (Terminated e s) = s"

text \<open>The error that terminated the process, if one did.\<close>

fun terminated_with :: "'d result \<Rightarrow> error option" where
  "terminated_with (Done s) = None"
| "terminated_with (Exit s) = None"
| "terminated_with (Terminated err s) = Some err"

definition log :: "log_level \<Rightarrow> string \<Rightarrow> string list \<Rightarrow> 'd globals \<Rightarrow> 'd globals" where
  "log lvl fmt xs s = s\<lparr>logged := logged s @ [(lvl, fmt, xs)]\<rparr>"

definition ScpiSend :: "scpi_reply \<Rightarrow> 'd globals \<Rightarrow> 'd globals" where
  "ScpiSend r s = s\<lparr>sent := sent s @ [r]\<rparr>"

text \<open>A device call whose result is not looked at.\<close>

definition dwf :: "'d dwf_call \<Rightarrow> 'd globals \<Rightarrow> 'd globals" where
  "dwf c s = s\<lparr>dwf_calls := dwf_calls s @ [c]\<rparr>"

text \<open>\<^verbatim>\<open>if(!FDwf...(...)) LogError("... failed\n");\<close>\<close>

definition dwf_checked :: "'d env \<Rightarrow> 'd dwf_call \<Rightarrow> string \<Rightarrow> 'd globals \<Rightarrow> 'd globals" where
  "dwf_checked e c msg s =
     (if dwf_succeeds e (dwf_calls s) c then dwf c s else log LogError msg [] (dwf c s))"

text \<open>\<^verbatim>\<open>std::map::operator[]\<close>: the value read, and the entry it inserts for a missing key.\<close>

definition map_index :: "channel_map \<Rightarrow> size_t \<Rightarrow> bool" where
  "map_index m i = (case m i of None \<Rightarrow> False | Some b \<Rightarrow> b)"

definition map_touch :: "channel_map \<Rightarrow> size_t \<Rightarrow> channel_map" where
  "map_touch m i = (case m i of None \<Rightarrow> m(i \<mapsto> False) | Some b \<Rightarrow> m)"

text \<open>\<^verbatim>\<open>int64_t\<close> division: truncating; a zero divisor, or the one quotient that does not
  fit, traps.\<close>

definition int64_div :: "int64_t \<Rightarrow> int64_t \<Rightarrow> error + int64_t" where
  "int64_div a b =
     (if b = 0 then Inl division_by_zero
      else if a = - (2 ^ 63) \<and> b = - 1 then Inl division_overflow
      else Inr (word_of_int (sint a sdiv sint b)))"

subsection \<open>Start and Stop\<close>

text \<open>The parameter \<open>force\<close> is not used by the body.\<close>

definition Start :: "bool \<Rightarrow> 'd globals \<Rightarrow> 'd result" where
  "Start force s =
     (let s1 = s\<lparr>g_captureMemDepth := g_memDepth s,
                  g_channelOnDuringArm := g_channelOn s,
                  g_sampleIntervalDuringArm := g_sampleInterval s\<rparr>
      in case int64_div (g_triggerDelay s1) (g_sampleInterval s1) of
           Inl err \<Rightarrow> Terminated err s1
         | Inr q \<Rightarrow>
             Done ((dwf (FDwfAnalogInConfigure True True)
                     (dwf FDwfAnalogInAcquisitionModeSet_acqmodeSingle
                        (s1\<lparr>g_triggerSampleIndex := q\<rparr>)))
                   \<lparr>g_triggerArmed := True\<rparr>))"

definition Stop :: "'d globals \<Rightarrow> 'd globals" where
  "Stop s = (dwf (FDwfAnalogInConfigure True False) s)\<lparr>g_triggerArmed := False\<rparr>"

text \<open>\<^verbatim>\<open>if(g_triggerArmed) Start();\<close>, the end of most handlers.\<close>

definition rearm :: "'d globals \<Rightarrow> 'd result" where
  "rearm s = (if g_triggerArmed s then Start False s else Done s)"

subsection \<open>The handlers of the command loop\<close>

text \<open>The query branch. It writes none of the variables of the file.\<close>

definition cmd_query :: "'d env \<Rightarrow> string \<Rightarrow> string \<Rightarrow> 'd globals \<Rightarrow> 'd globals" where
  "cmd_query e line c s =
     (if c = ''*IDN'' then ScpiSend reply_IDN s
      else if c = ''CHANS'' then ScpiSend (reply_CHANS (g_numAnalogInChannels e)) s
      else if c = ''RATES'' then ScpiSend reply_RATES (dwf FDwfAnalogInFrequencyInfo s)
      else if c = ''DEPTHS'' then ScpiSend (reply_DEPTHS ''65536,'') s
      else log LogDebug ''Unrecognized query received: %s'' [line] s)"

definition cmd_ON :: "'d env \<Rightarrow> size_t \<Rightarrow> 'd globals \<Rightarrow> 'd result" where
  "cmd_ON e channelId s =
     (let s1 = s\<lparr>g_channelOn := (g_channelOn s)(channelId \<mapsto> True)\<rparr>;
          s2 = dwf_checked e (FDwfAnalogInChannelEnableSet channelId True)
                 ''FDwfAnalogInChannelEnableSet failed'' s1
      in rearm (s2\<lparr>g_memDepthChanged := True\<rparr>))"

text \<open>The handler of OFF stores \<^verbatim>\<open>true\<close> in the map and passes \<^verbatim>\<open>false\<close> to the device.\<close>

definition cmd_OFF :: "'d env \<Rightarrow> size_t \<Rightarrow> 'd globals \<Rightarrow> 'd result" where
  "cmd_OFF e channelId s =
     (let s1 = s\<lparr>g_channelOn := (g_channelOn s)(channelId \<mapsto> True)\<rparr>;
          s2 = dwf_checked e (FDwfAnalogInChannelEnableSet channelId False)
                 ''FDwfAnalogInChannelEnableSet failed'' s1
      in rearm (s2\<lparr>g_memDepthChanged := True\<rparr>))"

definition cmd_OFFS :: "'d env \<Rightarrow> size_t \<Rightarrow> string \<Rightarrow> 'd globals \<Rightarrow> 'd result" where
  "cmd_OFFS e channelId a s =
     (case stod e a of
        Inl err \<Rightarrow> Terminated err s
      | Inr requestedOffset \<Rightarrow>
          rearm (dwf_checked e (FDwfAnalogInChannelOffsetSet channelId requestedOffset)
                   ''FDwfAnalogInChannelOffsetSet failed'' s))"

definition cmd_ATTEN :: "'d env \<Rightarrow> size_t \<Rightarrow> string \<Rightarrow> 'd globals \<Rightarrow> 'd result" where
  "cmd_ATTEN e channelId a s =
     (case stod e a of
        Inl err \<Rightarrow> Terminated err s
      | Inr requestedAtten \<Rightarrow>
          rearm (dwf_checked e (FDwfAnalogInChannelAttenuationSet channelId requestedAtten)
                   ''FDwfAnalogInChannelAttenuationSet failed'' s))"

definition cmd_RANGE :: "'d env \<Rightarrow> size_t \<Rightarrow> string \<Rightarrow> 'd globals \<Rightarrow> 'd result" where
  "cmd_RANGE e channelId a s =
     (case stod e a of
        Inl err \<Rightarrow> Terminated err s
      | Inr rng \<Rightarrow>
          rearm (dwf_checked e (FDwfAnalogInChannelRangeSet channelId rng)
                   ''FDwfAnalogInChannelRangeSet failed'' s))"

definition cmd_RATE :: "'d env \<Rightarrow> string \<Rightarrow> 'd globals \<Rightarrow> 'd result" where
  "cmd_RATE e a s =
     (case stoull a of
        Inl err \<Rightarrow> Terminated err s
      | Inr rate \<Rightarrow>
          (let s1 = dwf_checked e (FDwfAnalogInFrequencySet rate)
                      ''FDwfAnalogInFrequencySet failed'' s
           in case FS_PER_SECOND_div e rate of
                Inl err \<Rightarrow> Terminated err s1
              | Inr interval \<Rightarrow> rearm (s1\<lparr>g_sampleInterval := interval\<rparr>)))"

definition cmd_DEPTH :: "'d env \<Rightarrow> string \<Rightarrow> 'd globals \<Rightarrow> 'd result" where
  "cmd_DEPTH e a s =
     (case stoull a of
        Inl err \<Rightarrow> Terminated err s
      | Inr depth \<Rightarrow>
          (let s1 = s\<lparr>g_memDepth := depth\<rparr>;
               s2 = dwf_checked e (FDwfAnalogInBufferSizeSet (g_memDepth s1))
                      ''FDwfAnalogInBufferSizeSet failed'' s1
           in rearm (s2\<lparr>g_memDepthChanged := True\<rparr>)))"

text \<open>
  The loop of the START handler over the channels \<open>i < n\<close>, from \<open>i\<close> on: the flag
  \<^verbatim>\<open>anyChannels\<close> and the map after the reads.
\<close>

function anyChannels_loop :: "size_t \<Rightarrow> size_t \<Rightarrow> channel_map \<Rightarrow> bool \<times> channel_map" where
  "anyChannels_loop n i m =
     (if i < n then
        (if map_index m i then (True, map_touch m i)
         else anyChannels_loop n (i + 1) (map_touch m i))
      else (False, m))"
  by pat_completeness auto
termination
proof (relation "measure (\<lambda>(n, i, m). unat n - unat i)")
  show "wf (measure (\<lambda>(n :: size_t, i :: size_t, m :: channel_map). unat n - unat i))"
    by simp
next
  fix n i :: size_t and m :: channel_map
  assume lt: "i < n"
  have "unat i < unat n"
    using lt by (simp add: word_less_nat_alt)
  moreover have "unat n < 2 ^ 64"
    using unsigned_less [of n] by simp
  ultimately have "unat i + unat (1 :: size_t) < 2 ^ LENGTH(64)"
    by simp
  then have "unat (i + 1) = unat i + unat (1 :: size_t)"
    by (simp only: unat_add_lem [THEN iffD1])
  moreover note \<open>unat i < unat n\<close>
  ultimately show "((n, i + 1, map_touch m i), (n, i, m))
      \<in> measure (\<lambda>(n, i, m). unat n - unat i)"
    by simp
qed

declare anyChannels_loop.simps [simp del]

definition cmd_START :: "'d env \<Rightarrow> string \<Rightarrow> 'd globals \<Rightarrow> 'd result" where
  "cmd_START e c s =
     (if g_triggerArmed s then
        Done (log LogVerbose ''Ignoring START command because trigger is already armed'' [] s)
      else
        (let r = anyChannels_loop (g_numAnalogInChannels e) 0 (g_channelOn s);
             s1 = s\<lparr>g_channelOn := snd r\<rparr>
         in if \<not> fst r then
              Done (log LogVerbose ''Ignoring START command because no channels are active'' [] s1)
            else
              (case Start False s1 of
                 Done s2 \<Rightarrow> Done (s2\<lparr>g_triggerOneShot := (c = ''SINGLE'')\<rparr>)
               | Exit s2 \<Rightarrow> Exit s2
               | Terminated err s2 \<Rightarrow> Terminated err s2)))"

subsection \<open>The TRIG handlers\<close>

definition trig_MODE :: "'d env \<Rightarrow> string \<Rightarrow> 'd globals \<Rightarrow> 'd result" where
  "trig_MODE e a s =
     (if a = ''EDGE'' then
        Done (dwf_checked e FDwfAnalogInTriggerTypeSet_trigtypeEdge
                ''FDwfAnalogInTriggerTypeSet failed'' s)
      else Done (log LogWarning ''Unknown trigger mode %s'' [a] s))"

definition trig_EDGE_DIR :: "'d env \<Rightarrow> string \<Rightarrow> 'd globals \<Rightarrow> 'd result" where
  "trig_EDGE_DIR e a s =
     (let condition = (if a = ''RISING'' then DwfTriggerSlopeRise
                       else if a = ''FALLING'' then DwfTriggerSlopeFall
                       else DwfTriggerSlopeEither)
      in rearm (dwf_checked e (FDwfAnalogInTriggerConditionSet condition)
                  ''FDwfAnalogInTriggerConditionSet failed'' s))"

definition trig_LEV :: "'d env \<Rightarrow> string \<Rightarrow> 'd globals \<Rightarrow> 'd result" where
  "trig_LEV e a s =
     (case stod e a of
        Inl err \<Rightarrow> Terminated err s
      | Inr v \<Rightarrow>
          (let s1 = s\<lparr>g_triggerVoltage := v\<rparr>
           in rearm (dwf_checked e (FDwfAnalogInTriggerLevelSet (g_triggerVoltage s1))
                       ''FDwfAnalogInTriggerLevelSet failed'' s1)))"

text \<open>
  \<^verbatim>\<open>args[0][1] - '1'\<close>, converted to \<^verbatim>\<open>size_t\<close>. The character after the last one of a
  \<^verbatim>\<open>std::string\<close> is NUL (an argument is never empty); \<^verbatim>\<open>char\<close> is signed, as on x86-64.
\<close>

definition char_at :: "string \<Rightarrow> nat \<Rightarrow> char" where
  "char_at a i = (if i < length a then a ! i else CHR 0x00)"

definition char_to_int :: "char \<Rightarrow> int" where
  "char_to_int c = sint (word_of_nat (of_char c) :: 8 word)"

definition trig_SOU :: "'d env \<Rightarrow> string \<Rightarrow> 'd globals \<Rightarrow> 'd result" where
  "trig_SOU e a s =
     (let s1 = dwf_checked e FDwfAnalogInTriggerSourceSet_trigsrcDetectorAnalogIn
                 ''FDwfAnalogInTriggerSourceSet failed'' s;
          s2 = dwf_checked e FDwfAnalogInTriggerAutoTimeoutSet_0
                 ''FDwfAnalogInTriggerAutoTimeoutSet failed'' s1;
          s3 = s2\<lparr>g_triggerChannel := word_of_int (char_to_int (char_at a 1) - 49)\<rparr>
      in rearm (dwf_checked e (FDwfAnalogInTriggerChannelSet (g_triggerChannel s3))
                  ''FDwfAnalogInTriggerChannelSet failed'' s3))"

text \<open>
  The three integer statements of the DELAY handler: \<^verbatim>\<open>offset_samples = g_memDepth/2\<close>
  (unsigned), \<^verbatim>\<open>offset_fs = offset_samples * g_sampleInterval\<close> and
  \<^verbatim>\<open>position_fs = offset_fs - g_triggerDelay\<close>, on 64 bits.
\<close>

definition position_fs :: "size_t \<Rightarrow> int64_t \<Rightarrow> int64_t \<Rightarrow> int64_t" where
  "position_fs memDepth sampleInterval triggerDelay =
     (let offset_samples = memDepth div 2;
          offset_fs = offset_samples * sampleInterval
      in offset_fs - triggerDelay)"

definition trig_DELAY :: "'d env \<Rightarrow> string \<Rightarrow> 'd globals \<Rightarrow> 'd result" where
  "trig_DELAY e a s =
     (case stoull a of
        Inl err \<Rightarrow> Terminated err s
      | Inr d \<Rightarrow>
          (let s1 = s\<lparr>g_triggerDelay := d\<rparr>;
               position_sec_requested =
                 mul_SECONDS_PER_FS e
                   (position_fs (g_memDepth s1) (g_sampleInterval s1) (g_triggerDelay s1));
               s2 = dwf_checked e (FDwfAnalogInTriggerPositionSet position_sec_requested)
                      ''FDwfAnalogInTriggerPositionSet failed'' s1;
               position_sec_actual = dwf_position e (dwf_calls s2);
               s3 = dwf_checked e FDwfAnalogInTriggerPositionGet
                      ''FDwfAnalogInTriggerPositionGet failed'' s2;
               s4 = s3\<lparr>g_triggerDeltaSec :=
                          double_minus e position_sec_actual position_sec_requested\<rparr>
           in rearm s4))"

definition log_args :: "string list \<Rightarrow> 'd globals \<Rightarrow> 'd globals" where
  "log_args xs s = foldl (\<lambda>t x. log LogDebug ''Arg: %s'' [x] t) s xs"

definition trig_unrecognized :: "string \<Rightarrow> string \<Rightarrow> string list \<Rightarrow> 'd globals \<Rightarrow> 'd globals" where
  "trig_unrecognized line c xs s =
     log_args xs
       (log LogDebug ''Command: %s'' [c]
          (log LogDebug ''Unrecognized trigger command received: %s'' [line] s))"

definition cmd_TRIG :: "'d env \<Rightarrow> string \<Rightarrow> string \<Rightarrow> string list \<Rightarrow> 'd globals \<Rightarrow> 'd result" where
  "cmd_TRIG e line c xs s =
     (if c = ''MODE'' \<and> length xs = 1 then trig_MODE e (hd xs) s
      else if c = ''EDGE:DIR'' \<and> length xs = 1 then trig_EDGE_DIR e (hd xs) s
      else if c = ''LEV'' \<and> length xs = 1 then trig_LEV e (hd xs) s
      else if c = ''SOU'' \<and> length xs = 1 then trig_SOU e (hd xs) s
      else if c = ''DELAY'' \<and> length xs = 1 then trig_DELAY e (hd xs) s
      else Done (trig_unrecognized line c xs s))"

definition cmd_unrecognized :: "string \<Rightarrow> string \<Rightarrow> string \<Rightarrow> string list \<Rightarrow> 'd globals \<Rightarrow> 'd globals" where
  "cmd_unrecognized line subj c xs s =
     log_args xs
       (log LogDebug ''Command: %s'' [c]
          (log LogDebug ''Subject: %s'' [subj]
             (log LogDebug ''Unrecognized command received: %s'' [line] s)))"

subsection \<open>The command loop\<close>

text \<open>The chain of tests of the loop body, in the order of the source.\<close>

definition dispatch ::
  "'d env \<Rightarrow> string \<Rightarrow> string \<Rightarrow> string \<Rightarrow> bool \<Rightarrow> string list \<Rightarrow> size_t \<Rightarrow> 'd globals \<Rightarrow> 'd result" where
  "dispatch e line subj c q xs channelId s =
     (if q then Done (cmd_query e line c s)
      else if c = ''EXIT'' then Exit s
      else if c = ''ON'' then cmd_ON e channelId s
      else if c = ''OFF'' then cmd_OFF e channelId s
      else if c = ''OFFS'' \<and> length xs = 1 then cmd_OFFS e channelId (hd xs) s
      else if c = ''ATTEN'' \<and> length xs = 1 then cmd_ATTEN e channelId (hd xs) s
      else if c = ''RANGE'' \<and> length xs = 1 then cmd_RANGE e channelId (hd xs) s
      else if c = ''RATE'' \<and> length xs = 1 then cmd_RATE e (hd xs) s
      else if c = ''DEPTH'' \<and> length xs = 1 then cmd_DEPTH e (hd xs) s
      else if c = ''START'' \<or> c = ''SINGLE'' then cmd_START e c s
      else if c = ''FORCE'' then Start True s
      else if c = ''STOP'' then Done (Stop s)
      else if subj = ''TRIG'' then cmd_TRIG e line c xs s
      else Done (cmd_unrecognized line subj c xs s))"

text \<open>One iteration, for a line that \<^verbatim>\<open>ScpiRecv\<close> returned: parse, trace, channel index,
  dispatch.\<close>

definition command_iteration :: "'d env \<Rightarrow> string \<Rightarrow> 'd globals \<Rightarrow> 'd result" where
  "command_iteration e line s =
     (case ParseScpiLine line of
        (subj, c, q, xs) \<Rightarrow>
          (let s1 = log LogTrace line [] s
           in case channelId_of (g_numAnalogInChannels e) subj of
                Inl err \<Rightarrow> Terminated err s1
              | Inr channelId \<Rightarrow> dispatch e line subj c q xs channelId s1))"

text \<open>The loop over the lines of one connection; it is left when the lines run out.\<close>

fun command_loop :: "'d env \<Rightarrow> string list \<Rightarrow> 'd globals \<Rightarrow> 'd result" where
  "command_loop e [] s = Exit s"
| "command_loop e (line # rest) s =
     (case command_iteration e line s of
        Done s' \<Rightarrow> command_loop e rest s'
      | Exit s' \<Rightarrow> Exit s'
      | Terminated err s' \<Rightarrow> Terminated err s')"

subsection \<open>A simulated environment\<close>

text \<open>
  Modelled from the spec: the macro \<^verbatim>\<open>FS_PER_SECOND\<close> is not defined in this file; the spec
  gives the stored interval as \<open>1e15/hz\<close>, taken here as the integer quotient.
\<close>

definition spec_FS_PER_SECOND_div :: "int64_t \<Rightarrow> error + int64_t" where
  "spec_FS_PER_SECOND_div rate = int64_div 1000000000000000 rate"

text \<open>
  A device for running the model on concrete lines. Seconds are counted in femtoseconds,
  as integers; \<^verbatim>\<open>stod\<close> reads integers only. The device rounds a trigger position down to
  a multiple of 1000 and reports that; every call succeeds.
\<close>

definition last_position_set :: "int dwf_call list \<Rightarrow> int" where
  "last_position_set cs =
     foldl (\<lambda>p c. case c of FDwfAnalogInTriggerPositionSet x \<Rightarrow> x | _ \<Rightarrow> p) 0 cs"

definition sim_stod :: "string \<Rightarrow> error + int" where
  "sim_stod a = (case scan_integer a of None \<Rightarrow> Inl invalid_argument
                 | Some (neg, v) \<Rightarrow> Inr (if neg then - v else v))"

definition sim_env :: "int env" where
  "sim_env =
     \<lparr> g_numAnalogInChannels = 4, stod = sim_stod,
       FS_PER_SECOND_div = spec_FS_PER_SECOND_div,
       mul_SECONDS_PER_FS = sint, double_minus = (\<lambda>a b. a - b), double_zero = 0,
       dwf_succeeds = (\<lambda>cs c. True),
       dwf_position = (\<lambda>cs. (last_position_set cs div 1000) * 1000) \<rparr>"

text \<open>The same environment with a device whose every call fails.\<close>

definition failing_env :: "int env" where
  "failing_env = sim_env\<lparr>dwf_succeeds := (\<lambda>cs c. False)\<rparr>"

text \<open>The state of the simulated server after a rate, a channel and START: armed.\<close>

definition armed_example :: "int globals" where
  "armed_example =
     globals_of (command_loop sim_env [''RATE 1000'', ''C1:ON'', ''START'']
                   (initial_globals sim_env))"

subsection \<open>Results up to the log\<close>



section \<open>Properties\<close>

subsection \<open>Definitions to unfold when a concrete line is run\<close>

lemmas char_defs = isspace_def isdigit_def toupper_def digit_value_def
lemmas parse_defs = ParseScpiLine_def parse_reset_def parse_char_def parse_leftover_def
lemmas number_defs = scan_integer_def stoi_def stoull_def
lemmas channel_defs = channelId_of_def first_char_def c_str_def
lemmas io_defs = log_def ScpiSend_def dwf_def dwf_checked_def
lemmas arm_defs = Start_def Stop_def rearm_def int64_div_def
lemmas line_defs = command_iteration_def parse_defs char_defs number_defs channel_defs
lemmas sim_defs = sim_env_def failing_env_def sim_stod_def spec_FS_PER_SECOND_div_def
  last_position_set_def initial_globals_def
lemmas loop_defs = anyChannels_loop.simps map_index_def map_touch_def

subsection \<open>The tokenizer\<close>

lemma parse_loop_append:
  "parse_loop (xs @ ys) v = parse_loop ys (parse_loop xs v)"
  by (induction xs arbitrary: v) simp_all

text \<open>A run of token characters without a colon is appended to \<open>tmp\<close>.\<close>

lemma parse_loop_subject_token:
  "list_all (\<lambda>c. token_char c \<and> c \<noteq> CHR '':'') xs \<Longrightarrow>
   parse_loop xs v = v\<lparr>tmp := tmp v @ xs\<rparr>"
  by (induction xs arbitrary: v) (simp_all add: parse_char_def token_char_def)

text \<open>Once the subject is set, a colon is a token character like the others.\<close>

lemma parse_loop_command_token:
  "subject v \<noteq> [] \<Longrightarrow> list_all token_char xs \<Longrightarrow>
   parse_loop xs v = v\<lparr>tmp := tmp v @ xs\<rparr>"
  by (induction xs arbitrary: v) (simp_all add: parse_char_def token_char_def)

lemma parse_subject_command_query:
  assumes S: "S \<noteq> []" "list_all (\<lambda>c. token_char c \<and> c \<noteq> CHR '':'') S"
    and C: "list_all token_char C"
  shows "ParseScpiLine (S @ '':'' @ C @ ''?'') = (S, C, True, [])"
proof -
  let ?v1 = "parse_reset\<lparr>tmp := S\<rparr>"
  let ?v2 = "parse_reset\<lparr>subject := S\<rparr>"
  let ?v3 = "parse_reset\<lparr>subject := S, tmp := C\<rparr>"
  let ?v4 = "parse_reset\<lparr>subject := S, tmp := C, query := True\<rparr>"
  have 1: "parse_loop S parse_reset = ?v1"
    using S(2) by (simp add: parse_loop_subject_token parse_reset_def)
  have 2: "parse_char CHR '':'' ?v1 = ?v2"
    by (simp add: parse_char_def parse_reset_def)
  have 3: "parse_loop C ?v2 = ?v3"
    using S(1) C by (simp add: parse_loop_command_token parse_reset_def)
  have 4: "parse_char CHR ''?'' ?v3 = ?v4"
    by (simp add: parse_char_def parse_reset_def)
  have "parse_loop (S @ '':'' @ C @ ''?'') parse_reset = ?v4"
    by (simp add: parse_loop_append 1 2 3 4)
  then show ?thesis
    by (simp add: ParseScpiLine_def parse_leftover_def parse_reset_def)
qed

text \<open>
  Claim C6, as amended. For a non-empty subject \<open>S\<close> of token characters other than the
  colon and a command \<open>C\<close> of token characters (neither white space, comma nor question
  mark), the line \<open>S:C?\<close> parses to subject \<open>S\<close>, command \<open>C\<close>, query set, no arguments.
  The line \<open>TRIG:LEV 1.5\<close> parses to subject \<open>TRIG\<close>, command \<open>LEV\<close>, one argument
  \<open>1.5\<close>, no query. The line \<open>*IDN?\<close> parses to an empty subject, the command
  \<open>*IDN\<close> with its asterisk, query set.
\<close>

theorem parse_subject_command_examples:
  "(S \<noteq> [] \<and> list_all (\<lambda>c. token_char c \<and> c \<noteq> CHR '':'') S \<and> list_all token_char C
      \<longrightarrow> ParseScpiLine (S @ '':'' @ C @ ''?'') = (S, C, True, []))
   \<and> ParseScpiLine ''TRIG:LEV 1.5'' = (''TRIG'', ''LEV'', False, [''1.5''])
   \<and> ParseScpiLine ''*IDN?'' = ([], ''*IDN'', True, [])"
  using parse_subject_command_query [of S C]
  by (simp add: parse_defs char_defs)

text \<open>The theorem at the subject \<open>TRIG\<close> and the command \<open>EDGE:DIR\<close>.\<close>

theorem parse_subject_command_examples_witness:
  "''TRIG'' \<noteq> [] \<and> list_all (\<lambda>c. token_char c \<and> c \<noteq> CHR '':'') ''TRIG''
   \<and> list_all token_char ''EDGE:DIR''
   \<and> ParseScpiLine ''TRIG:EDGE:DIR?'' = (''TRIG'', ''EDGE:DIR'', True, [])"
  using parse_subject_command_examples [of "''TRIG''" "''EDGE:DIR''"]
  by (simp add: token_char_def isspace_def)

text \<open>Claim C6 as stated fails: the command parsed from \<open>*IDN?\<close> is not \<open>IDN\<close>.\<close>

theorem IDN_command_keeps_asterisk:
  "fst (snd (ParseScpiLine ''*IDN?'')) \<noteq> ''IDN''"
  by (simp add: parse_defs char_defs)

text \<open>The query flag is set exactly by a question mark, wherever it stands.\<close>

lemma parse_loop_query:
  "query (parse_loop line v) = (query v \<or> CHR ''?'' \<in> set line)"
  by (induction line arbitrary: v) (auto simp add: parse_char_def)

lemma parse_leftover_query: "query (parse_leftover v) = query v"
  by (simp add: parse_leftover_def)

lemma ParseScpiLine_query:
  assumes "ParseScpiLine line = (subj, c, q, xs)"
  shows "q = (CHR ''?'' \<in> set line)"
proof -
  have "q = query (parse_leftover (parse_loop line parse_reset))"
    using assms by (simp add: ParseScpiLine_def Let_def)
  then show ?thesis
    by (simp add: parse_leftover_query parse_loop_query parse_reset_def)
qed

subsection \<open>The channel index\<close>

text \<open>
  Claim C2 at the subject \<open>C99\<close> on a device of 4 channels: the index is 4, the channel
  count itself, one past the last valid index 3.
\<close>

theorem C99_of_4_channels_is_4: "channelId_of 4 ''C99'' = Inr 4"
  by (simp add: line_defs)

subsection \<open>The query branch\<close>

lemma cmd_query_frame:
  "(cmd_query e line c s)\<lparr>dwf_calls := ds, logged := ls, sent := rs\<rparr>
   = s\<lparr>dwf_calls := ds, logged := ls, sent := rs\<rparr>"
  by (simp add: cmd_query_def io_defs)

lemma cmd_query_calls:
  "dwf_calls (cmd_query e line c s) = dwf_calls s
   \<or> dwf_calls (cmd_query e line c s) = dwf_calls s @ [FDwfAnalogInFrequencyInfo]"
  by (simp add: cmd_query_def io_defs)

text \<open>
  Claim C10. A line with a question mark anywhere leaves every variable of the file as
  it was: the iteration changes only the log, the replies sent and the record of device
  calls, to which it adds at most the read-only \<^verbatim>\<open>FDwfAnalogInFrequencyInfo\<close>. The
  iteration is the query branch and nothing else, unless the subject makes \<^verbatim>\<open>stoi\<close>
  throw before the branch is reached, which writes no variable either.
\<close>

theorem query_line_mutates_nothing:
  assumes "CHR ''?'' \<in> set line"
  shows "(globals_of (command_iteration e line s))
            \<lparr>dwf_calls := dwf_calls s, logged := logged s, sent := sent s\<rparr> = s
         \<and> (dwf_calls (globals_of (command_iteration e line s)) = dwf_calls s
            \<or> dwf_calls (globals_of (command_iteration e line s))
                = dwf_calls s @ [FDwfAnalogInFrequencyInfo])
         \<and> command_iteration e line s
             = (case channelId_of (g_numAnalogInChannels e) (fst (ParseScpiLine line)) of
                  Inl err \<Rightarrow> Terminated err (log LogTrace line [] s)
                | Inr ch \<Rightarrow>
                    Done (cmd_query e line (fst (snd (ParseScpiLine line)))
                            (log LogTrace line [] s)))"
proof -
  obtain subj c q xs where p: "ParseScpiLine line = (subj, c, q, xs)"
    by (cases "ParseScpiLine line") auto
  have q: "q" using ParseScpiLine_query [OF p] assms by simp
  show ?thesis
  proof (cases "channelId_of (g_numAnalogInChannels e) subj")
    case (Inl err)
    then show ?thesis by (simp add: command_iteration_def p log_def)
  next
    case (Inr ch)
    have "command_iteration e line s = Done (cmd_query e line c (log LogTrace line [] s))"
      by (simp add: command_iteration_def p Inr dispatch_def q)
    then show ?thesis
      using cmd_query_calls [where e = e and line = line and c = c and s = "log LogTrace line [] s"]
      by (auto simp add: cmd_query_frame log_def p Inr)
  qed
qed

text \<open>The line \<open>START?\<close> on the initial state does not arm the trigger.\<close>

theorem query_line_mutates_nothing_witness:
  "CHR ''?'' \<in> set ''START?''
   \<and> \<not> g_triggerArmed (globals_of (command_iteration sim_env ''START?'' (initial_globals sim_env)))"
proof -
  let ?s = "initial_globals sim_env"
  let ?s' = "globals_of (command_iteration sim_env ''START?'' ?s)"
  have q: "CHR ''?'' \<in> set ''START?''" by simp
  have "?s'\<lparr>dwf_calls := dwf_calls ?s, logged := logged ?s, sent := sent ?s\<rparr> = ?s"
    by (rule conjunct1 [OF query_line_mutates_nothing [OF q]])
  then have "g_triggerArmed (?s'\<lparr>dwf_calls := dwf_calls ?s, logged := logged ?s, sent := sent ?s\<rparr>)
      = g_triggerArmed ?s"
    by (rule arg_cong)
  then show ?thesis
    using q by (simp add: initial_globals_def)
qed

subsection \<open>ON and OFF\<close>

text \<open>
  Claim C1 on the code. The handler of OFF leaves the flag of its channel \<^verbatim>\<open>true\<close>,
  whatever it was: for every state, and in particular for the line \<open>C1:OFF\<close>, which
  from the initial state makes one device call, with \<^verbatim>\<open>false\<close>.
\<close>

theorem OFF_stores_true:
  "g_channelOn (globals_of (cmd_OFF e ch s)) ch = Some True
   \<and> g_channelOn (globals_of (command_iteration e ''C1:OFF'' s)) 0 = Some True
   \<and> dwf_calls (globals_of (command_iteration e ''C1:OFF'' (initial_globals e)))
       = [FDwfAnalogInChannelEnableSet 0 False]"
  by (simp add: line_defs dispatch_def cmd_OFF_def arm_defs io_defs Let_def initial_globals_def)

subsection \<open>Arming\<close>

lemma Start_zero_interval:
  "g_sampleInterval s = 0 \<Longrightarrow>
   Start force s = Terminated division_by_zero
     (s\<lparr>g_captureMemDepth := g_memDepth s, g_channelOnDuringArm := g_channelOn s,
        g_sampleIntervalDuringArm := g_sampleInterval s\<rparr>)"
  by (simp add: Start_def int64_div_def)

text \<open>
  Claim C9. The sample interval is 0 in the initial state; \<^verbatim>\<open>Start\<close> divides the trigger
  delay by it. The line \<open>FORCE\<close> on the initial state ends in a division by zero, for
  every environment; so do the lines \<open>C1:ON\<close> and \<open>START\<close> on a device of 4 channels.
\<close>

theorem arming_before_RATE_divides_by_zero:
  "g_sampleInterval (initial_globals e) = 0
   \<and> terminated_with (command_iteration e ''FORCE'' (initial_globals e)) = Some division_by_zero
   \<and> terminated_with (command_loop sim_env [''C1:ON'', ''START''] (initial_globals sim_env))
       = Some division_by_zero"
proof (intro conjI)
  show "g_sampleInterval (initial_globals e) = 0"
    by (simp add: initial_globals_def)
  show "terminated_with (command_iteration e ''FORCE'' (initial_globals e)) = Some division_by_zero"
    by (simp add: line_defs dispatch_def Start_def int64_div_def initial_globals_def log_def)
  show "terminated_with (command_loop sim_env [''C1:ON'', ''START''] (initial_globals sim_env))
       = Some division_by_zero"
    by (simp add: line_defs dispatch_def cmd_ON_def cmd_START_def arm_defs sim_defs io_defs
        loop_defs Let_def)
qed

subsection \<open>The trigger delay\<close>

text \<open>Half of an unsigned 64-bit value is the same number when read as signed.\<close>

lemma sint_half:
  fixes md :: size_t
  shows "sint (md div 2) = uint md div 2"
proof -
  have "uint md < 2 ^ 64"
    using uint_lt2p [of md] by simp
  then have small: "uint md div 2 < 2 ^ 63"
    by simp
  have nonneg: "0 \<le> uint md div 2"
    by simp
  have u: "uint (md div 2) = uint md div 2"
    by (simp add: uint_div)
  have "sint (md div 2) = signed_take_bit 63 (uint (md div 2))"
    by (simp add: sint_uint)
  also have "\<dots> = uint md div 2"
    unfolding u
  proof (rule signed_take_bit_int_eq_self)
    show "- (2 ^ 63) \<le> uint md div 2"
      by (rule order_trans [OF _ nonneg]) simp
    show "uint md div 2 < 2 ^ 63"
      by (rule small)
  qed
  finally show ?thesis .
qed

lemma position_fs_exact:
  fixes md :: size_t and iv d :: int64_t
  assumes p: "- (2 ^ 63) \<le> uint md div 2 * sint iv" "uint md div 2 * sint iv < 2 ^ 63"
    and q: "- (2 ^ 63) \<le> uint md div 2 * sint iv - sint d"
      "uint md div 2 * sint iv - sint d < 2 ^ 63"
  shows "sint (position_fs md iv d) = uint md div 2 * sint iv - sint d"
proof -
  have "sint (md div 2 * iv) = signed_take_bit 63 (sint (md div 2) * sint iv)"
    by (simp add: sint_word_ariths)
  also have "\<dots> = uint md div 2 * sint iv"
    unfolding sint_half using p by (rule signed_take_bit_int_eq_self)
  finally have prod: "sint (md div 2 * iv) = uint md div 2 * sint iv" .
  have "sint (md div 2 * iv - d) = signed_take_bit 63 (sint (md div 2 * iv) - sint d)"
    by (simp add: sint_word_ariths)
  also have "\<dots> = uint md div 2 * sint iv - sint d"
    unfolding prod using q by (rule signed_take_bit_int_eq_self)
  finally show ?thesis
    by (simp add: position_fs_def)
qed

text \<open>What \<^verbatim>\<open>if(g_triggerArmed) Start();\<close> leaves alone.\<close>

lemma rearm_keeps:
  "g_channelOn (globals_of (rearm s)) = g_channelOn s"
  "g_memDepth (globals_of (rearm s)) = g_memDepth s"
  "g_sampleInterval (globals_of (rearm s)) = g_sampleInterval s"
  "g_triggerOneShot (globals_of (rearm s)) = g_triggerOneShot s"
  "g_memDepthChanged (globals_of (rearm s)) = g_memDepthChanged s"
  "g_triggerVoltage (globals_of (rearm s)) = g_triggerVoltage s"
  "g_triggerChannel (globals_of (rearm s)) = g_triggerChannel s"
  "g_triggerDelay (globals_of (rearm s)) = g_triggerDelay s"
  "g_triggerDeltaSec (globals_of (rearm s)) = g_triggerDeltaSec s"
  "logged (globals_of (rearm s)) = logged s"
  "sent (globals_of (rearm s)) = sent s"
  by (simp_all add: rearm_def Start_def dwf_def Let_def split: sum.splits)

lemma rearm_calls:
  "dwf_calls (globals_of (rearm s)) = dwf_calls s
   \<or> dwf_calls (globals_of (rearm s))
       = dwf_calls s @ [FDwfAnalogInAcquisitionModeSet_acqmodeSingle, FDwfAnalogInConfigure True True]"
  by (simp add: rearm_def Start_def dwf_def Let_def split: sum.splits)

lemma trig_DELAY_effect:
  assumes "stoull a = Inr d"
  shows "g_triggerDelay (globals_of (trig_DELAY e a s)) = d"
    and "take 2 (drop (length (dwf_calls s)) (dwf_calls (globals_of (trig_DELAY e a s))))
         = [FDwfAnalogInTriggerPositionSet
              (mul_SECONDS_PER_FS e (position_fs (g_memDepth s) (g_sampleInterval s) d)),
            FDwfAnalogInTriggerPositionGet]"
    and "g_triggerDeltaSec (globals_of (trig_DELAY e a s))
         = double_minus e
             (dwf_position e (dwf_calls s @ [FDwfAnalogInTriggerPositionSet
                (mul_SECONDS_PER_FS e (position_fs (g_memDepth s) (g_sampleInterval s) d))]))
             (mul_SECONDS_PER_FS e (position_fs (g_memDepth s) (g_sampleInterval s) d))"
proof -
  let ?req = "mul_SECONDS_PER_FS e (position_fs (g_memDepth s) (g_sampleInterval s) d)"
  let ?s1 = "s\<lparr>g_triggerDelay := d\<rparr>"
  let ?s2 = "dwf_checked e (FDwfAnalogInTriggerPositionSet ?req)
               ''FDwfAnalogInTriggerPositionSet failed'' ?s1"
  let ?s3 = "dwf_checked e FDwfAnalogInTriggerPositionGet
               ''FDwfAnalogInTriggerPositionGet failed'' ?s2"
  let ?s4 = "?s3\<lparr>g_triggerDeltaSec := double_minus e (dwf_position e (dwf_calls ?s2)) ?req\<rparr>"
  have run: "trig_DELAY e a s = rearm ?s4"
    using assms by (simp add: trig_DELAY_def Let_def)
  have calls2: "dwf_calls ?s2 = dwf_calls s @ [FDwfAnalogInTriggerPositionSet ?req]"
    by (simp add: io_defs)
  have calls4: "dwf_calls ?s4
      = dwf_calls s @ [FDwfAnalogInTriggerPositionSet ?req, FDwfAnalogInTriggerPositionGet]"
    by (simp add: io_defs)
  show "g_triggerDelay (globals_of (trig_DELAY e a s)) = d"
    unfolding run rearm_keeps by (simp add: io_defs)
  show "g_triggerDeltaSec (globals_of (trig_DELAY e a s))
         = double_minus e (dwf_position e (dwf_calls s @ [FDwfAnalogInTriggerPositionSet ?req])) ?req"
    unfolding run rearm_keeps by (simp add: calls2)
  show "take 2 (drop (length (dwf_calls s)) (dwf_calls (globals_of (trig_DELAY e a s))))
         = [FDwfAnalogInTriggerPositionSet ?req, FDwfAnalogInTriggerPositionGet]"
    unfolding run using rearm_calls [of ?s4] by (auto simp add: calls4)
qed

text \<open>
  Claim C7, as amended. When the argument of \<open>TRIG:DELAY\<close> reads as \<open>d\<close>, the handler
  stores \<open>d\<close> as the delay; its first two device calls set the position
  \<open>position_fs memDepth sampleInterval d\<close>, converted to seconds, and read the position
  back; the residual stored is the value read minus the value requested. The position is
  \<open>memDepth div 2 * sampleInterval - d\<close> as integers whenever the product and the
  difference fit in 64 signed bits. For depth 1000, interval 1000 and delay 200000 it is
  300000 femtoseconds.
\<close>

theorem trigger_delay_position:
  "(stoull a = Inr d \<longrightarrow>
      g_triggerDelay (globals_of (trig_DELAY e a s)) = d
      \<and> take 2 (drop (length (dwf_calls s)) (dwf_calls (globals_of (trig_DELAY e a s))))
         = [FDwfAnalogInTriggerPositionSet
              (mul_SECONDS_PER_FS e (position_fs (g_memDepth s) (g_sampleInterval s) d)),
            FDwfAnalogInTriggerPositionGet]
      \<and> g_triggerDeltaSec (globals_of (trig_DELAY e a s))
         = double_minus e
             (dwf_position e (dwf_calls s @ [FDwfAnalogInTriggerPositionSet
                (mul_SECONDS_PER_FS e (position_fs (g_memDepth s) (g_sampleInterval s) d))]))
             (mul_SECONDS_PER_FS e (position_fs (g_memDepth s) (g_sampleInterval s) d)))
   \<and> (- (2 ^ 63) \<le> uint md div 2 * sint iv \<and> uint md div 2 * sint iv < 2 ^ 63
      \<and> - (2 ^ 63) \<le> uint md div 2 * sint iv - sint t
      \<and> uint md div 2 * sint iv - sint t < 2 ^ 63
      \<longrightarrow> sint (position_fs md iv t) = uint md div 2 * sint iv - sint t)
   \<and> sint (position_fs 1000 1000 200000) = 300000"
proof (intro conjI impI)
  show "sint (position_fs 1000 1000 200000) = 300000"
    by (simp add: position_fs_def)
qed (simp_all add: trig_DELAY_effect position_fs_exact)

text \<open>
  The theorem on the simulated device, which rounds a position down to a multiple of
  1000: depth 1000, interval 1000 and the line argument 200300 give the position 299700
  and the residual - 700.
\<close>

theorem trigger_delay_position_witness:
  "stoull ''200300'' = Inr 200300
   \<and> - (2 ^ 63) \<le> uint (1000 :: size_t) div 2 * sint (1000 :: int64_t)
   \<and> uint (1000 :: size_t) div 2 * sint (1000 :: int64_t) < 2 ^ 63
   \<and> - (2 ^ 63) \<le> uint (1000 :: size_t) div 2 * sint (1000 :: int64_t) - sint (200300 :: int64_t)
   \<and> uint (1000 :: size_t) div 2 * sint (1000 :: int64_t) - sint (200300 :: int64_t) < 2 ^ 63
   \<and> sint (position_fs 1000 1000 200300) = 299700
   \<and> g_triggerDeltaSec (globals_of (trig_DELAY sim_env ''200300''
        ((initial_globals sim_env)\<lparr>g_memDepth := 1000, g_sampleInterval := 1000\<rparr>))) = - 700"
proof -
  have a: "stoull ''200300'' = Inr 200300"
    by (simp add: number_defs char_defs)
  have b: "- (2 ^ 63) \<le> uint (1000 :: size_t) div 2 * sint (1000 :: int64_t)
      \<and> uint (1000 :: size_t) div 2 * sint (1000 :: int64_t) < 2 ^ 63
      \<and> - (2 ^ 63) \<le> uint (1000 :: size_t) div 2 * sint (1000 :: int64_t) - sint (200300 :: int64_t)
      \<and> uint (1000 :: size_t) div 2 * sint (1000 :: int64_t) - sint (200300 :: int64_t) < 2 ^ 63"
    by simp
  note t = trigger_delay_position [where a = "''200300''" and d = 200300 and e = sim_env
      and s = "(initial_globals sim_env)\<lparr>g_memDepth := 1000, g_sampleInterval := 1000\<rparr>"
      and md = 1000 and iv = 1000 and t = 200300]
  have "sint (position_fs 1000 1000 200300) = 299700"
    using t b by simp
  moreover have "g_triggerDeltaSec (globals_of (trig_DELAY sim_env ''200300''
        ((initial_globals sim_env)\<lparr>g_memDepth := 1000, g_sampleInterval := 1000\<rparr>))) = - 700"
    using t a by (simp add: sim_defs position_fs_def)
  ultimately show ?thesis
    using a b by simp
qed

text \<open>Claim C7 as stated fails: the position of its example is not - 300000.\<close>

theorem example_position_is_not_negative:
  "sint (position_fs 1000 1000 200000) \<noteq> - 300000"
  by (simp add: position_fs_def)

subsection \<open>Failing device calls\<close>






























subsection \<open>The channel scan of START\<close>

lemma word_succ_le:
  fixes i n j :: size_t
  assumes "i < n"
  shows "(i + 1 \<le> j) = (i < j)"
proof -
  have "i \<noteq> - 1"
    using assms by (metis word_order.extremum_strict)
  then show ?thesis
    by (simp add: inc_less_eq_iff)
qed

lemma map_index_False: "m i \<noteq> Some True \<Longrightarrow> \<not> map_index m i"
  by (cases "m i") (auto simp add: map_index_def)

lemma map_touch_False: "m i \<noteq> Some True \<Longrightarrow> map_touch m i = m(i \<mapsto> False)"
  by (cases "m i") (auto simp add: map_touch_def)

lemma anyChannels_loop_none:
  assumes "\<forall>j. i \<le> j \<and> j < n \<longrightarrow> m j \<noteq> Some True"
  shows "anyChannels_loop n i m = (False, (\<lambda>j. if i \<le> j \<and> j < n then Some False else m j))"
  using assms
proof (induction n i m rule: anyChannels_loop.induct)
  case (1 n i m)
  show ?case
  proof (cases "i < n")
    case True
    have mi: "m i \<noteq> Some True"
      using "1.prems" True by simp
    have idx: "\<not> map_index m i"
      using mi by (rule map_index_False)
    have touch: "map_touch m i = m(i \<mapsto> False)"
      using mi by (rule map_touch_False)
    have rest: "\<forall>j. i + 1 \<le> j \<and> j < n \<longrightarrow> map_touch m i j \<noteq> Some True"
      using "1.prems" by (auto simp add: touch word_succ_le [OF True])
    have "anyChannels_loop n (i + 1) (map_touch m i)
        = (False, (\<lambda>j. if i + 1 \<le> j \<and> j < n then Some False else map_touch m i j))"
      using True idx rest by (rule "1.IH")
    moreover have "(\<lambda>j. if i + 1 \<le> j \<and> j < n then Some False else map_touch m i j)
        = (\<lambda>j. if i \<le> j \<and> j < n then Some False else m j)"
      using True by (auto simp add: touch word_succ_le [OF True] fun_eq_iff)
    ultimately show ?thesis
      using True idx by (simp add: anyChannels_loop.simps [of n i m])
  next
    case False
    then have "(\<lambda>j. if i \<le> j \<and> j < n then Some False else m j) = m"
      by (auto simp add: fun_eq_iff)
    then show ?thesis
      using False by (simp add: anyChannels_loop.simps [of n i m])
  qed
qed


lemma anyChannels_loop_flags:
  "map_index (snd (anyChannels_loop n i m)) j = map_index m j"
proof (induction n i m rule: anyChannels_loop.induct)
  case (1 n i m)
  have touch: "map_index (map_touch m i) j = map_index m j"
    by (auto simp add: map_index_def map_touch_def split: option.splits)
  show ?case
  proof (cases "i < n \<and> \<not> map_index m i")
    case True
    then have "map_index (snd (anyChannels_loop n (i + 1) (map_touch m i))) j
        = map_index (map_touch m i) j"
      by (intro "1.IH") simp_all
    then show ?thesis
      using True touch by (simp add: anyChannels_loop.simps [of n i m])
  next
    case False
    then show ?thesis
      using touch by (auto simp add: anyChannels_loop.simps [of n i m])
  qed
qed


subsection \<open>START, SINGLE and FORCE\<close>

text \<open>When its division is defined, \<^verbatim>\<open>Start\<close> takes the snapshot, stores the sample
  index, makes its two device calls and sets the armed flag.\<close>

lemma Start_Done:
  assumes "int64_div (g_triggerDelay s) (g_sampleInterval s) = Inr q"
  shows "Start force s
     = Done (s\<lparr>g_captureMemDepth := g_memDepth s, g_channelOnDuringArm := g_channelOn s,
              g_sampleIntervalDuringArm := g_sampleInterval s, g_triggerSampleIndex := q,
              dwf_calls := dwf_calls s @ [FDwfAnalogInAcquisitionModeSet_acqmodeSingle,
                                          FDwfAnalogInConfigure True True],
              g_triggerArmed := True\<rparr>)"
  using assms by (simp add: Start_def dwf_def)

lemma START_when_armed:
  assumes "c = ''START'' \<or> c = ''SINGLE''" "g_triggerArmed s"
  shows "dispatch e line subj c False xs ch s
     = Done (log LogVerbose ''Ignoring START command because trigger is already armed'' [] s)"
  using assms by (auto simp add: dispatch_def cmd_START_def)

lemma START_without_channels:
  assumes "c = ''START'' \<or> c = ''SINGLE''" "\<not> g_triggerArmed s"
    and "\<forall>i. i < g_numAnalogInChannels e \<longrightarrow> g_channelOn s i \<noteq> Some True"
  shows "dispatch e line subj c False xs ch s
     = Done (log LogVerbose ''Ignoring START command because no channels are active'' []
               (s\<lparr>g_channelOn := (\<lambda>i. if i < g_numAnalogInChannels e then Some False
                                       else g_channelOn s i)\<rparr>))"
proof -
  have "anyChannels_loop (g_numAnalogInChannels e) 0 (g_channelOn s)
      = (False, (\<lambda>i. if 0 \<le> i \<and> i < g_numAnalogInChannels e then Some False else g_channelOn s i))"
    using assms(3) by (intro anyChannels_loop_none) simp
  then show ?thesis
    using assms(1,2) by (auto simp add: dispatch_def cmd_START_def Let_def)
qed

lemma scan_keeps_flags:
  assumes "\<forall>i. i < n \<longrightarrow> m i \<noteq> Some True"
  shows "map_index (\<lambda>i. if i < n then Some False else m i) j = map_index m j"
  using assms map_index_False [of m j] by (simp add: map_index_def)

lemma FORCE_arms:
  assumes "int64_div (g_triggerDelay s) (g_sampleInterval s) = Inr q"
  shows "dispatch e line subj ''FORCE'' False xs ch s
     = Done (s\<lparr>g_captureMemDepth := g_memDepth s, g_channelOnDuringArm := g_channelOn s,
              g_sampleIntervalDuringArm := g_sampleInterval s, g_triggerSampleIndex := q,
              dwf_calls := dwf_calls s @ [FDwfAnalogInAcquisitionModeSet_acqmodeSingle,
                                          FDwfAnalogInConfigure True True],
              g_triggerArmed := True\<rparr>)"
  using Start_Done [OF assms] by (simp add: dispatch_def)

text \<open>The armed example state, field by field.\<close>

lemma armed_example_eq:
  "armed_example =
     \<lparr> g_channelOn = [0 \<mapsto> True], g_memDepth = 1000000, g_sampleInterval = 1000000000000,
       g_channelOnDuringArm = [0 \<mapsto> True], g_sampleIntervalDuringArm = 1000000000000,
       g_captureMemDepth = 1000000,
       g_triggerArmed = True, g_triggerOneShot = False, g_memDepthChanged = True,
       g_triggerVoltage = 0, g_triggerChannel = 0, g_triggerSampleIndex = 0,
       g_triggerDelay = 0, g_triggerDeltaSec = 0,
       dwf_calls = [FDwfAnalogInFrequencySet 1000, FDwfAnalogInChannelEnableSet 0 True,
                    FDwfAnalogInAcquisitionModeSet_acqmodeSingle, FDwfAnalogInConfigure True True],
       logged = [(LogTrace, ''RATE 1000'', []), (LogTrace, ''C1:ON'', []),
                 (LogTrace, ''START'', [])],
       sent = [] \<rparr>"
  by (simp add: armed_example_def line_defs dispatch_def cmd_RATE_def cmd_ON_def cmd_START_def
      arm_defs sim_defs io_defs loop_defs Let_def signed_divide_int_def)


text \<open>
  What the handlers do where nothing traps. When the trigger is armed, START and SINGLE
  change nothing but the log. When it is not armed and no channel below the channel count
  has its flag set, START and SINGLE are logged and ignored; every channel's flag reads as
  before. FORCE takes the snapshot, makes the two device calls and sets the armed flag
  in every state where the division of \<^verbatim>\<open>Start\<close> gives a quotient.
\<close>

lemma START_guard_and_FORCE:
  "((c = ''START'' \<or> c = ''SINGLE'') \<and> g_triggerArmed s \<longrightarrow>
      dispatch e line subj c False xs ch s
        = Done (log LogVerbose ''Ignoring START command because trigger is already armed'' [] s))
   \<and> ((c = ''START'' \<or> c = ''SINGLE'') \<and> \<not> g_triggerArmed s
        \<and> (\<forall>i. i < g_numAnalogInChannels e \<longrightarrow> g_channelOn s i \<noteq> Some True) \<longrightarrow>
      dispatch e line subj c False xs ch s
        = Done (log LogVerbose ''Ignoring START command because no channels are active'' []
                  (s\<lparr>g_channelOn := (\<lambda>i. if i < g_numAnalogInChannels e then Some False
                                          else g_channelOn s i)\<rparr>))
      \<and> (\<forall>j. map_index (\<lambda>i. if i < g_numAnalogInChannels e then Some False
                             else g_channelOn s i) j
               = map_index (g_channelOn s) j))
   \<and> (int64_div (g_triggerDelay s) (g_sampleInterval s) = Inr q \<longrightarrow>
      dispatch e line subj ''FORCE'' False xs ch s
        = Done (s\<lparr>g_captureMemDepth := g_memDepth s, g_channelOnDuringArm := g_channelOn s,
                 g_sampleIntervalDuringArm := g_sampleInterval s, g_triggerSampleIndex := q,
                 dwf_calls := dwf_calls s @ [FDwfAnalogInAcquisitionModeSet_acqmodeSingle,
                                             FDwfAnalogInConfigure True True],
                 g_triggerArmed := True\<rparr>))"
proof (intro conjI impI allI)
  assume "(c = ''START'' \<or> c = ''SINGLE'') \<and> g_triggerArmed s"
  then show "dispatch e line subj c False xs ch s
        = Done (log LogVerbose ''Ignoring START command because trigger is already armed'' [] s)"
    by (simp add: START_when_armed)
next
  assume a: "(c = ''START'' \<or> c = ''SINGLE'') \<and> \<not> g_triggerArmed s
        \<and> (\<forall>i. i < g_numAnalogInChannels e \<longrightarrow> g_channelOn s i \<noteq> Some True)"
  then show "dispatch e line subj c False xs ch s
        = Done (log LogVerbose ''Ignoring START command because no channels are active'' []
                  (s\<lparr>g_channelOn := (\<lambda>i. if i < g_numAnalogInChannels e then Some False
                                          else g_channelOn s i)\<rparr>))"
    by (simp add: START_without_channels)
  fix j
  show "map_index (\<lambda>i. if i < g_numAnalogInChannels e then Some False else g_channelOn s i) j
               = map_index (g_channelOn s) j"
    using a by (simp add: scan_keeps_flags)
next
  assume "int64_div (g_triggerDelay s) (g_sampleInterval s) = Inr q"
  then show "dispatch e line subj ''FORCE'' False xs ch s
        = Done (s\<lparr>g_captureMemDepth := g_memDepth s, g_channelOnDuringArm := g_channelOn s,
                 g_sampleIntervalDuringArm := g_sampleInterval s, g_triggerSampleIndex := q,
                 dwf_calls := dwf_calls s @ [FDwfAnalogInAcquisitionModeSet_acqmodeSingle,
                                             FDwfAnalogInConfigure True True],
                 g_triggerArmed := True\<rparr>)"
    by (rule FORCE_arms)
qed

text \<open>
  Claim C3 on the code. The initial state is not armed and has no channel on. The line
  \<open>FORCE\<close> on it, for every environment, ends the process in the division of
  \<^verbatim>\<open>Start\<close> by the sample interval 0: the trigger is not armed and no device call has
  been made.
\<close>

theorem FORCE_on_initial_state_does_not_arm:
  "\<not> g_triggerArmed (initial_globals e)
   \<and> g_channelOn (initial_globals e) i = None
   \<and> terminated_with (command_iteration e ''FORCE'' (initial_globals e))
       = Some division_by_zero
   \<and> \<not> g_triggerArmed (globals_of (command_iteration e ''FORCE'' (initial_globals e)))
   \<and> dwf_calls (globals_of (command_iteration e ''FORCE'' (initial_globals e))) = []"
  by (simp add: line_defs dispatch_def Start_def int64_div_def initial_globals_def log_def)

subsection \<open>Re-arming\<close>

text \<open>A handler that ends with the re-arm, when armed and when the division of \<^verbatim>\<open>Start\<close>
  is defined, leaves the snapshot equal to the live configuration and starts the device.\<close>

lemma rearm_snapshot:
  assumes "g_triggerArmed s" "int64_div (g_triggerDelay s) (g_sampleInterval s) = Inr q"
  shows "\<exists>s'. rearm s = Done s' \<and> g_triggerArmed s'
           \<and> g_channelOnDuringArm s' = g_channelOn s \<and> g_channelOn s' = g_channelOn s
           \<and> g_sampleIntervalDuringArm s' = g_sampleInterval s
           \<and> g_sampleInterval s' = g_sampleInterval s
           \<and> g_captureMemDepth s' = g_memDepth s \<and> g_memDepth s' = g_memDepth s
           \<and> dwf_calls s' = dwf_calls s @ [FDwfAnalogInAcquisitionModeSet_acqmodeSingle,
                                             FDwfAnalogInConfigure True True]"
  using assms by (simp add: rearm_def Start_Done)

text \<open>
  Claim C4 on the code. The handler of \<open>TRIG:MODE\<close> ends after its one device call or
  its warning, in every state: it does not call \<^verbatim>\<open>Start\<close>. On the armed example state
  the line \<open>TRIG:MODE EDGE\<close> adds the call that sets the trigger type and no other,
  where the line \<open>TRIG:EDGE:DIR RISING\<close> adds its call and the two calls of \<^verbatim>\<open>Start\<close>.
\<close>

theorem TRIG_MODE_does_not_rearm:
  "cmd_TRIG e line ''MODE'' [a] s
     = Done (if a = ''EDGE''
             then dwf_checked e FDwfAnalogInTriggerTypeSet_trigtypeEdge
                    ''FDwfAnalogInTriggerTypeSet failed'' s
             else log LogWarning ''Unknown trigger mode %s'' [a] s)
   \<and> g_triggerArmed armed_example
   \<and> dwf_calls (globals_of (command_iteration sim_env ''TRIG:MODE EDGE'' armed_example))
       = dwf_calls armed_example @ [FDwfAnalogInTriggerTypeSet_trigtypeEdge]
   \<and> dwf_calls (globals_of (command_iteration sim_env ''TRIG:EDGE:DIR RISING'' armed_example))
       = dwf_calls armed_example @ [FDwfAnalogInTriggerConditionSet DwfTriggerSlopeRise,
            FDwfAnalogInAcquisitionModeSet_acqmodeSingle, FDwfAnalogInConfigure True True]"
proof (intro conjI)
  show "cmd_TRIG e line ''MODE'' [a] s
     = Done (if a = ''EDGE''
             then dwf_checked e FDwfAnalogInTriggerTypeSet_trigtypeEdge
                    ''FDwfAnalogInTriggerTypeSet failed'' s
             else log LogWarning ''Unknown trigger mode %s'' [a] s)"
    by (simp add: cmd_TRIG_def trig_MODE_def)
  show "g_triggerArmed armed_example"
    by (simp add: armed_example_eq)
  show "dwf_calls (globals_of (command_iteration sim_env ''TRIG:MODE EDGE'' armed_example))
       = dwf_calls armed_example @ [FDwfAnalogInTriggerTypeSet_trigtypeEdge]"
    by (simp add: armed_example_eq line_defs dispatch_def cmd_TRIG_def trig_MODE_def io_defs
        sim_env_def)
  show "dwf_calls (globals_of (command_iteration sim_env ''TRIG:EDGE:DIR RISING'' armed_example))
       = dwf_calls armed_example @ [FDwfAnalogInTriggerConditionSet DwfTriggerSlopeRise,
            FDwfAnalogInAcquisitionModeSet_acqmodeSingle, FDwfAnalogInConfigure True True]"
    by (simp add: armed_example_eq line_defs dispatch_def cmd_TRIG_def trig_EDGE_DIR_def io_defs
        sim_env_def arm_defs signed_divide_int_def)
qed

subsection \<open>The one-shot flag\<close>


lemma oneShot_dwf_checked [simp]:
  "g_triggerOneShot (dwf_checked e c msg s) = g_triggerOneShot s"
  by (simp add: io_defs)











end
